theory Spec2Isabelle
  imports Main "HOL-Library.Word" "HOL-Library.Sublist"
begin

unbundle bit_operations_syntax

section \<open>The operating system as seen by the port drivers\<close>

text \<open>
  The drivers \<^verbatim>\<open>gpio_port2.c\<close> and \<^verbatim>\<open>i2c_port2.c\<close> act on the world only through
  system calls. Each call is recorded in a trace, and the kernel's answer is a function of
  the calls made so far and of the call itself: a deterministic kernel of any behaviour.
  A theorem that quantifies over the kernel therefore covers every outcome of every call.
\<close>

datatype oflag = O_RDONLY | O_WRONLY | O_RDWR

datatype syscall =
    SysAccess string                       \<comment> \<open>\<^verbatim>\<open>access(path, F_OK)\<close>\<close>
  | SysOpen string oflag                   \<comment> \<open>\<^verbatim>\<open>open(path, flags)\<close>\<close>
  | SysWrite int string                    \<comment> \<open>\<^verbatim>\<open>write(fd, buf, count)\<close>, the bytes of \<open>buf\<close>\<close>
  | SysClose int                           \<comment> \<open>\<^verbatim>\<open>close(fd)\<close>\<close>
  | SysPwrite int string nat               \<comment> \<open>\<^verbatim>\<open>pwrite(fd, buf, count, offset)\<close>\<close>
  | SysPread int nat nat                   \<comment> \<open>\<^verbatim>\<open>pread(fd, buf, count, offset)\<close>\<close>
  | SysRead int nat                        \<comment> \<open>\<^verbatim>\<open>read(fd, buf, count)\<close>\<close>
  | SysPoll "(int \<times> 16 word) list" int    \<comment> \<open>\<^verbatim>\<open>poll(fds, nfds, timeout)\<close>: the \<open>nfds\<close> entries watched\<close>

text \<open>
  \<open>k_ret\<close> is the return value of a call that transfers nothing back, \<open>k_errno\<close> the
  value of \<^verbatim>\<open>errno\<close> after it, \<open>k_data\<close> the bytes a \<^verbatim>\<open>read\<close> or \<^verbatim>\<open>pread\<close> delivers
  (\<open>None\<close> when the call returns \<open>-1\<close>, otherwise the call returns their number), and
  \<open>k_revents\<close> the \<^verbatim>\<open>revents\<close> field \<^verbatim>\<open>poll\<close> stores in its \<open>i\<close>-th entry.
\<close>

record kernel =
  k_ret :: "syscall list \<Rightarrow> syscall \<Rightarrow> int"
  k_errno :: "syscall list \<Rightarrow> syscall \<Rightarrow> int"
  k_data :: "syscall list \<Rightarrow> syscall \<Rightarrow> string option"
  k_revents :: "syscall list \<Rightarrow> syscall \<Rightarrow> nat \<Rightarrow> 16 word"

text \<open>Structured values of the command channel (the \<^verbatim>\<open>ETERM\<close> of erl\_interface).\<close>

datatype eterm =
    EAtom string
  | EInt int
  | EBin string
  | ERef nat
  | ETuple "eterm list"

text \<open>
  The world: the kernel, the system calls issued so far, and the values handed to
  \<^verbatim>\<open>erlcmd_send\<close> so far.
\<close>

record world =
  kern :: kernel
  trace :: "syscall list"
  sent :: "eterm list"

definition sys :: "world \<Rightarrow> syscall \<Rightarrow> int \<times> world" where
  "sys w c = (k_ret (kern w) (trace w) c, w\<lparr>trace := trace w @ [c]\<rparr>)"

definition sys_data :: "world \<Rightarrow> syscall \<Rightarrow> string option \<times> world" where
  "sys_data w c = (k_data (kern w) (trace w) c, w\<lparr>trace := trace w @ [c]\<rparr>)"

text \<open>
  A process ends either through \<^verbatim>\<open>err\<close>/\<^verbatim>\<open>errx(EXIT_FAILURE, ...)\<close> (\<open>Exit\<close>, with the
  message), or it reaches a point where C gives the program no defined behaviour, such as a
  null pointer handed to a macro that dereferences it (\<open>Undefined\<close>, with the place). An
  operation that can end the process yields \<open>Inl\<close> of the fault and the world at that
  moment, or \<open>Inr\<close> of its result. What a program does after an \<open>Undefined\<close> point is not
  modelled and nothing is said about it: the calls it may still make are not in the world
  given, which is the one the point was reached in.
\<close>

datatype fault = Exit string | Undefined string

type_synonym 'a outcome = "fault \<times> world + 'a"

text \<open>
  The conversion of an \<^verbatim>\<open>ssize_t\<close> to \<^verbatim>\<open>size_t\<close> that C applies before comparing the
  two (64-bit \<^verbatim>\<open>size_t\<close>): \<open>-1\<close> becomes the largest value. For the results a call can
  have, \<open>-1\<close> or a count of bytes, the comparisons below come out the same with 32 bits.
\<close>

definition to_size_t :: "int \<Rightarrow> nat" where
  "to_size_t n = nat (n mod 2 ^ 64)"

subsection \<open>\<^verbatim>\<open>sprintf("%d")\<close>\<close>

fun dec_nat :: "nat \<Rightarrow> string" where
  "dec_nat n = (if n < 10 then [''0123456789'' ! n]
                else dec_nat (n div 10) @ [''0123456789'' ! (n mod 10)])"

declare dec_nat.simps [simp del]

definition fmt_d :: "int \<Rightarrow> string" where
  "fmt_d i = (if i < 0 then CHR ''-'' # dec_nat (nat (- i)) else dec_nat (nat i))"

section \<open>GPIO: \<^verbatim>\<open>gpio_port2.c\<close>\<close>

datatype gpio_state = GPIO_CLOSED | GPIO_OUTPUT | GPIO_INPUT | GPIO_INPUT_WITH_INTERRUPTS

record gpio =
  state :: gpio_state
  fd :: int
  pin_number :: int
  already_exported :: int

text \<open>
  \<^verbatim>\<open>sysfs_write_file\<close>: returns 0 on failure, the number of bytes written on success.
  \<^verbatim>\<open>warn\<close> only prints a diagnostic and is left out.
\<close>

definition sysfs_write_file :: "string \<Rightarrow> string \<Rightarrow> world \<Rightarrow> int \<times> world" where
  "sysfs_write_file pathname val w =
     (case sys w (SysOpen pathname O_WRONLY) of (fd', w1) \<Rightarrow>
        if fd' < 0 then (0, w1)
        else
          let count = length val in
          (case sys w1 (SysWrite fd' val) of (written, w2) \<Rightarrow>
             (case sys w2 (SysClose fd') of (_, w3) \<Rightarrow>
                if to_size_t written \<noteq> count then (0, w3) else (written, w3))))"

definition gpio_init :: gpio where
  "gpio_init = \<lparr>state = GPIO_CLOSED, fd = -1, pin_number = -1, already_exported = 0\<rparr>"

definition gpio_release :: "gpio \<Rightarrow> world \<Rightarrow> int \<times> gpio \<times> world" where
  "gpio_release pin w =
     (if state pin = GPIO_CLOSED then (1, pin, w)
      else
        let w1 = (if fd pin \<noteq> -1 then snd (sys w (SysClose (fd pin))) else w);
            pin1 = pin\<lparr>fd := -1\<rparr>;
            w2 = (if already_exported pin1 = 0
                  then snd (sysfs_write_file ''/sys/class/gpio/unexport''
                              (fmt_d (pin_number pin1)) w1)
                  else w1)
        in (1, pin1\<lparr>state := GPIO_CLOSED, pin_number := -1\<rparr>, w2))"

text \<open>
  The control files of a pin: \<^verbatim>\<open>sprintf(path, "/sys/class/gpio/gpio%d/<file>", pin_number)\<close>.
\<close>

definition gpio_path :: "int \<Rightarrow> string \<Rightarrow> string" where
  "gpio_path pin_num file = ''/sys/class/gpio/gpio'' @ fmt_d pin_num @ ''/'' @ file"

text \<open>
  \<^verbatim>\<open>gpio_open\<close>, in the order of the source: lines 96-117 (release, paths, export) are
  \<open>gpio_open\<close> itself, which goes on with lines 119-136 (\<open>gpio_open_direction\<close>), which goes
  on with lines 138-147 (\<open>gpio_open_value\<close>). The parameter \<^verbatim>\<open>unsigned int pin_number\<close>
  comes from an \<^verbatim>\<open>int\<close>, is printed with \<^verbatim>\<open>%d\<close> and stored in an \<^verbatim>\<open>int\<close> field, so
  its signed value is kept. The result is the return value, the pin structure and the world.
\<close>

definition gpio_open_value :: "gpio \<Rightarrow> int \<Rightarrow> world \<Rightarrow> int \<times> gpio \<times> world" where
  "gpio_open_value pin pin_num w =
     (let pin1 = pin\<lparr>pin_number := pin_num\<rparr> in
      case sys w (SysOpen (gpio_path pin_num ''value'')
                    (if state pin1 = GPIO_OUTPUT then O_RDWR else O_RDONLY)) of
        (fd', w1) \<Rightarrow>
          let pin2 = pin1\<lparr>fd := fd'\<rparr> in
          if fd pin2 < 0
          then (case gpio_release pin2 w1 of (_, pin3, w2) \<Rightarrow> (-1, pin3, w2))
          else (1, pin2, w1))"

definition gpio_open_direction :: "gpio \<Rightarrow> int \<Rightarrow> string \<Rightarrow> world \<Rightarrow> int \<times> gpio \<times> world" where
  "gpio_open_direction pin pin_num dir w =
     (case (if dir = ''input'' then Some (''in'', pin\<lparr>state := GPIO_INPUT\<rparr>)
            else if dir = ''output'' then Some (''out'', pin\<lparr>state := GPIO_OUTPUT\<rparr>)
            else None) of
        None \<Rightarrow> (-1, pin, w)
      | Some (dirstr, pin1) \<Rightarrow>
          (case sys w (SysAccess (gpio_path pin_num ''direction'')) of (acc, w1) \<Rightarrow>
             if acc \<noteq> -1
             then (case sysfs_write_file (gpio_path pin_num ''direction'') dirstr w1 of
                     (r, w2) \<Rightarrow> if r = 0 then (-1, pin1, w2)
                                else gpio_open_value pin1 pin_num w2)
             else gpio_open_value pin1 pin_num w1))"

definition gpio_open :: "gpio \<Rightarrow> int \<Rightarrow> string \<Rightarrow> world \<Rightarrow> int \<times> gpio \<times> world" where
  "gpio_open pin0 pin_num dir w0 =
     (case (if state pin0 \<noteq> GPIO_CLOSED then snd (gpio_release pin0 w0) else (pin0, w0)) of
        (pin, w) \<Rightarrow>
          (case sys w (SysAccess (gpio_path pin_num ''value'')) of (acc, w1) \<Rightarrow>
             if acc = -1
             then (case sysfs_write_file ''/sys/class/gpio/export'' (fmt_d pin_num) w1 of
                     (r, w2) \<Rightarrow> if r = 0 then (-1, pin, w2)
                                else gpio_open_direction (pin\<lparr>already_exported := 0\<rparr>)
                                       pin_num dir w2)
             else gpio_open_direction (pin\<lparr>already_exported := 1\<rparr>) pin_num dir w1))"

text \<open>
  \<^verbatim>\<open>gpio_write\<close>. The test \<^verbatim>\<open>amount_written < sizeof(buf)\<close> compares after converting
  the \<^verbatim>\<open>ssize_t\<close> to \<^verbatim>\<open>size_t\<close>.
\<close>

definition gpio_write :: "gpio \<Rightarrow> int \<Rightarrow> world \<Rightarrow> (int \<times> world) outcome" where
  "gpio_write pin val w =
     (if state pin \<noteq> GPIO_OUTPUT then Inr (-1, w)
      else
        let buf = (if val \<noteq> 0 then CHR ''1'' else CHR ''0'') in
        (case sys w (SysPwrite (fd pin) [buf] 0) of (amount_written, w1) \<Rightarrow>
           if to_size_t amount_written < 1 then Inl (Exit ''pwrite'', w1)
           else Inr (1, w1)))"

text \<open>
  \<^verbatim>\<open>gpio_read\<close>. When \<^verbatim>\<open>pread\<close> returns \<open>-1\<close> the size test passes (after the conversion
  to \<^verbatim>\<open>size_t\<close>) and \<^verbatim>\<open>buf\<close> is read without ever having been written.
\<close>

definition gpio_read :: "gpio \<Rightarrow> world \<Rightarrow> (int \<times> world) outcome" where
  "gpio_read pin w =
     (if state pin = GPIO_CLOSED then Inr (-1, w)
      else
        (case sys_data w (SysPread (fd pin) 1 0) of (got, w1) \<Rightarrow>
           let amount_read = (case got of None \<Rightarrow> -1 | Some bs \<Rightarrow> int (length bs)) in
           if to_size_t amount_read < 1 then Inl (Exit ''pread'', w1)
           else (case got of
                   Some (buf # _) \<Rightarrow> Inr (if buf = CHR ''1'' then 1 else 0, w1)
                 | _ \<Rightarrow> Inl (Undefined ''buf is uninitialised'', w1))))"

definition gpio_set_int :: "gpio \<Rightarrow> string \<Rightarrow> world \<Rightarrow> int \<times> gpio \<times> world" where
  "gpio_set_int pin mode w =
     (let path = gpio_path (pin_number pin) ''edge'' in
      case sysfs_write_file path mode w of (r, w1) \<Rightarrow>
        if r = 0 then (-1, pin, w1)
        else (1, pin\<lparr>state := GPIO_INPUT_WITH_INTERRUPTS\<rparr>, w1))"

text \<open>
  Modelled from the spec: \<^verbatim>\<open>erlcmd_send\<close>, declared in \<^verbatim>\<open>erlcmd.h\<close>, whose code is not among
  the sources. By section 6 of the specification the drivers produce structured values for
  the command channel and the framing is done outside them: a value sent is appended to the
  values sent so far.
\<close>

definition erlcmd_send :: "eterm \<Rightarrow> world \<Rightarrow> world" where
  "erlcmd_send resp w = w\<lparr>sent := sent w @ [resp]\<rparr>"

text \<open>
  The accessors of erl\_interface. \<^verbatim>\<open>erl_element(position, tuple)\<close> yields \<^verbatim>\<open>NULL\<close>
  (\<open>None\<close>) unless the term is a tuple and \<open>1 \<le> position \<le> arity\<close>. The macros
  \<^verbatim>\<open>ERL_ATOM_PTR\<close>, \<^verbatim>\<open>ERL_INT_VALUE\<close> and \<^verbatim>\<open>ERL_BIN_PTR\<close> read one member of the term's
  union without looking at its tag: on a term of another kind the result is not defined.
\<close>

definition erl_element :: "nat \<Rightarrow> eterm \<Rightarrow> eterm option" where
  "erl_element position t =
     (case t of
        ETuple ts \<Rightarrow> if 0 < position \<and> position \<le> length ts
                     then Some (ts ! (position - 1)) else None
      | _ \<Rightarrow> None)"

definition ERL_ATOM_PTR :: "eterm \<Rightarrow> fault + string" where
  "ERL_ATOM_PTR t = (case t of EAtom a \<Rightarrow> Inr a | _ \<Rightarrow> Inl (Undefined ''ERL_ATOM_PTR''))"

definition ERL_INT_VALUE :: "eterm \<Rightarrow> fault + int" where
  "ERL_INT_VALUE t = (case t of EInt i \<Rightarrow> Inr i | _ \<Rightarrow> Inl (Undefined ''ERL_INT_VALUE''))"

definition ERL_BIN_PTR :: "eterm \<Rightarrow> fault + string" where
  "ERL_BIN_PTR t = (case t of EBin bs \<Rightarrow> Inr bs | _ \<Rightarrow> Inl (Undefined ''ERL_BIN_PTR''))"

definition gpio_process :: "gpio \<Rightarrow> world \<Rightarrow> world outcome" where
  "gpio_process pin w =
     (case gpio_read pin w of
        Inl f \<Rightarrow> Inl f
      | Inr (val, w1) \<Rightarrow>
          let resp = (if val \<noteq> 0 then ETuple [EAtom ''gpio_interrupt'', EAtom ''rising'']
                      else ETuple [EAtom ''gpio_interrupt'', EAtom ''falling''])
          in Inr (erlcmd_send resp w1))"

subsection \<open>\<^verbatim>\<open>gpio_handle_request\<close>\<close>

text \<open>The three branches of the handler (lines 274-292, 293-303 and 304-349), then the handler.\<close>

definition gpio_handle_init :: "eterm \<Rightarrow> gpio \<Rightarrow> world \<Rightarrow> (gpio \<times> world) outcome" where
  "gpio_handle_init emsg pin w =
     (case (erl_element 2 emsg, erl_element 3 emsg) of
        (Some arg1p, Some arg2p) \<Rightarrow>
          (case ERL_INT_VALUE arg1p of
             Inl f \<Rightarrow> Inl (f, w)
           | Inr pin_num \<Rightarrow>
          (case ERL_ATOM_PTR arg2p of
             Inl f \<Rightarrow> Inl (f, w)
           | Inr dir \<Rightarrow>
          (case gpio_open pin pin_num dir w of (r, pin', w') \<Rightarrow>
             let resp = (if r \<noteq> 0 then EAtom ''ok''
                         else ETuple [EAtom ''error'', EAtom ''gpio_init_fail''])
             in Inr (pin', erlcmd_send resp w'))))
      | _ \<Rightarrow> Inl (Exit ''init: arg1p or arg2p was NULL'', w))"

definition gpio_handle_cast :: "eterm \<Rightarrow> gpio \<Rightarrow> world \<Rightarrow> (gpio \<times> world) outcome" where
  "gpio_handle_cast emsg pin w =
     (case erl_element 2 emsg of
        None \<Rightarrow> Inl (Exit ''cast: arg1p was NULL'', w)
      | Some arg1p \<Rightarrow>
          (case ERL_ATOM_PTR arg1p of
             Inl f \<Rightarrow> Inl (f, w)
           | Inr cmd \<Rightarrow>
               if cmd = ''release''
               then (case gpio_release pin w of (_, pin', w') \<Rightarrow> Inr (pin', w'))
               else Inl (Exit ''cast: bad command'', w)))"

text \<open>
  The response of a \<open>call\<close>: \<open>None\<close> is the null pointer \<^verbatim>\<open>resp\<close> starts as. The \<open>set_int\<close>
  branch does not test \<^verbatim>\<open>arg1p\<close> before \<^verbatim>\<open>ERL_ATOM_PTR\<close> dereferences it.
\<close>

definition gpio_call_resp ::
  "string \<Rightarrow> eterm \<Rightarrow> gpio \<Rightarrow> world \<Rightarrow> (eterm option \<times> gpio \<times> world) outcome" where
  "gpio_call_resp fn tuplep pin w =
     (if fn = ''write'' then
        (case erl_element 2 tuplep of
           None \<Rightarrow> Inl (Exit ''write: arg1p was NULL'', w)
         | Some arg1p \<Rightarrow>
             (case ERL_INT_VALUE arg1p of
                Inl f \<Rightarrow> Inl (f, w)
              | Inr val \<Rightarrow>
                  (case gpio_write pin val w of
                     Inl f \<Rightarrow> Inl f
                   | Inr (r, w') \<Rightarrow>
                       Inr (Some (if r \<noteq> 0 then EAtom ''ok''
                                  else ETuple [EAtom ''error'', EAtom ''gpio_write_failed'']),
                            pin, w'))))
      else if fn = ''read'' then
        (case gpio_read pin w of
           Inl f \<Rightarrow> Inl f
         | Inr (val, w') \<Rightarrow>
             Inr (Some (if val \<noteq> -1 then EInt val
                        else ETuple [EAtom ''error'', EAtom ''gpio_read_failed'']),
                  pin, w'))
      else if fn = ''set_int'' then
        (case erl_element 2 tuplep of
           None \<Rightarrow> Inl (Undefined ''set_int: arg1p is NULL'', w)
         | Some arg1p \<Rightarrow>
             (case ERL_ATOM_PTR arg1p of
                Inl f \<Rightarrow> Inl (f, w)
              | Inr mode \<Rightarrow>
                  (case gpio_set_int pin mode w of (r, pin', w') \<Rightarrow>
                     Inr (Some (if r \<noteq> 0 then EAtom ''ok''
                                else ETuple [EAtom ''error'', EAtom ''gpio_set_int_failed'']),
                          pin', w'))))
      else Inr (None, pin, w))"

text \<open>
  \<^verbatim>\<open>erl_format("{port_reply,~w,~w}", refp, resp)\<close> inserts both terms; with the null
  \<^verbatim>\<open>resp\<close> it is handed a null pointer, for which erl\_interface defines no result.
\<close>

definition gpio_handle_call :: "eterm \<Rightarrow> gpio \<Rightarrow> world \<Rightarrow> (gpio \<times> world) outcome" where
  "gpio_handle_call emsg pin w =
     (case (erl_element 2 emsg, erl_element 3 emsg) of
        (Some refp, Some tuplep) \<Rightarrow>
          (case erl_element 1 tuplep of
             None \<Rightarrow> Inl (Exit ''tuplep: fnp was NULL'', w)
           | Some fnp \<Rightarrow>
          (case ERL_ATOM_PTR fnp of
             Inl f \<Rightarrow> Inl (f, w)
           | Inr fn \<Rightarrow>
          (case gpio_call_resp fn tuplep pin w of
             Inl f \<Rightarrow> Inl f
           | Inr (None, pin', w') \<Rightarrow> Inl (Undefined ''erl_format: resp is NULL'', w')
           | Inr (Some resp, pin', w') \<Rightarrow>
               Inr (pin', erlcmd_send (ETuple [EAtom ''port_reply'', refp, resp]) w'))))
      | _ \<Rightarrow> Inl (Exit ''call: refp or tuplep was NULL'', w))"

definition gpio_handle_request :: "eterm \<Rightarrow> gpio \<Rightarrow> world \<Rightarrow> (gpio \<times> world) outcome" where
  "gpio_handle_request emsg pin w =
     (case erl_element 1 emsg of
        None \<Rightarrow> Inl (Exit ''erl_element(emsg_type)'', w)
      | Some emsg_type \<Rightarrow>
          (case ERL_ATOM_PTR emsg_type of
             Inl f \<Rightarrow> Inl (f, w)
           | Inr ty \<Rightarrow>
               if ty = ''init'' then gpio_handle_init emsg pin w
               else if ty = ''cast'' then gpio_handle_cast emsg pin w
               else if ty = ''call'' then gpio_handle_call emsg pin w
               else Inl (Exit ''unexpected element'', w)))"

subsection \<open>The event loop of \<^verbatim>\<open>main\<close>\<close>

definition STDIN_FILENO :: int where "STDIN_FILENO = 0"
definition POLLIN :: "16 word" where "POLLIN = 0x0001"
definition POLLPRI :: "16 word" where "POLLPRI = 0x0002"
definition POLLHUP :: "16 word" where "POLLHUP = 0x0010"
definition EINTR :: int where "EINTR = 4"

text \<open>
  The entries of \<^verbatim>\<open>fdset\<close> and the number of them \<^verbatim>\<open>poll\<close> is given (line 383).
\<close>

definition main_fdset :: "gpio \<Rightarrow> (int \<times> 16 word) list" where
  "main_fdset pin = [(STDIN_FILENO, POLLIN), (fd pin, POLLPRI)]"

definition main_nfds :: "gpio \<Rightarrow> nat" where
  "main_nfds pin = (if state pin = GPIO_INPUT_WITH_INTERRUPTS then 2 else 1)"

text \<open>
  One iteration of the \<^verbatim>\<open>for (;;)\<close> loop. \<^verbatim>\<open>erlcmd_process\<close> (from \<^verbatim>\<open>erlcmd.h\<close>) reads
  the command channel and calls the request handler; it is a parameter here. An entry
  \<^verbatim>\<open>poll\<close> was not given keeps \<^verbatim>\<open>revents = 0\<close>.
\<close>

definition main_step ::
  "(gpio \<Rightarrow> world \<Rightarrow> (gpio \<times> world) outcome) \<Rightarrow> gpio \<Rightarrow> world \<Rightarrow> (gpio \<times> world) outcome" where
  "main_step erlcmd_process pin w =
     (let nfds = main_nfds pin;
          call = SysPoll (take nfds (main_fdset pin)) (-1);
          errno = k_errno (kern w) (trace w) call;
          revents = (\<lambda>i. if i < nfds then k_revents (kern w) (trace w) call i else 0)
      in
      case sys w call of (rc, w1) \<Rightarrow>
        if rc < 0 then
          (if errno = EINTR then Inr (pin, w1) else Inl (Exit ''poll'', w1))
        else
          (case (if revents 0 AND (POLLIN OR POLLHUP) \<noteq> 0 then erlcmd_process pin w1
                 else Inr (pin, w1)) of
             Inl f \<Rightarrow> Inl f
           | Inr (pin2, w2) \<Rightarrow>
               if revents 1 AND POLLPRI \<noteq> 0
               then (case gpio_process pin2 w2 of Inl f \<Rightarrow> Inl f | Inr w3 \<Rightarrow> Inr (pin2, w3))
               else Inr (pin2, w2)))"

text \<open>The loop never leaves by itself: \<open>main_loop n\<close> is the outcome of its first \<open>n\<close> iterations.\<close>

primrec main_loop ::
  "nat \<Rightarrow> (gpio \<Rightarrow> world \<Rightarrow> (gpio \<times> world) outcome) \<Rightarrow> gpio \<Rightarrow> world \<Rightarrow> (gpio \<times> world) outcome" where
  "main_loop 0 erlcmd_process pin w = Inr (pin, w)"
| "main_loop (Suc n) erlcmd_process pin w =
     (case main_step erlcmd_process pin w of
        Inl f \<Rightarrow> Inl f
      | Inr (pin', w') \<Rightarrow> main_loop n erlcmd_process pin' w')"

section \<open>I2C: \<^verbatim>\<open>i2c_port2.c\<close>\<close>

text \<open>\<^verbatim>\<open>struct i2c_info\<close>; its fields \<^verbatim>\<open>fd\<close> and \<^verbatim>\<open>addr\<close> carry a prefix here.\<close>

record i2c_info =
  i2c_fd :: int
  i2c_addr :: nat

text \<open>\<^verbatim>\<open>I2C_SMBUS_BLOCK_MAX\<close> of \<^verbatim>\<open><linux/i2c.h>\<close>.\<close>

definition I2C_SMBUS_BLOCK_MAX :: int where
  "I2C_SMBUS_BLOCK_MAX = 32"

text \<open>
  \<^verbatim>\<open>i2c_write\<close> and \<^verbatim>\<open>i2c_read\<close> compare the \<^verbatim>\<open>ssize_t\<close> result with the
  \<^verbatim>\<open>unsigned int len\<close>; with a 64-bit \<^verbatim>\<open>ssize_t\<close> both are compared as they are, and for
  a length below \<open>2 ^ 31\<close> and a result that is \<open>-1\<close> or a count of bytes a 32-bit
  \<^verbatim>\<open>ssize_t\<close> gives the same. \<^verbatim>\<open>i2c_read\<close> also gives back what the call left in
  \<^verbatim>\<open>data\<close>.
\<close>

definition i2c_write :: "i2c_info \<Rightarrow> string \<Rightarrow> world \<Rightarrow> int \<times> world" where
  "i2c_write i2c data w =
     (let len = length data in
      case sys w (SysWrite (i2c_fd i2c) data) of (n, w1) \<Rightarrow>
        if n \<noteq> int len then (-1, w1) else (1, w1))"

definition i2c_read :: "i2c_info \<Rightarrow> nat \<Rightarrow> world \<Rightarrow> int \<times> string \<times> world" where
  "i2c_read i2c len w =
     (case sys_data w (SysRead (i2c_fd i2c) len) of (got, w1) \<Rightarrow>
        let n = (case got of None \<Rightarrow> -1 | Some bs \<Rightarrow> int (length bs));
            data = (case got of None \<Rightarrow> [] | Some bs \<Rightarrow> bs)
        in if n \<noteq> int len then (-1, data, w1) else (1, data, w1))"

text \<open>
  \<^verbatim>\<open>i2c_handle_request\<close>. Neither branch tests the second element for \<^verbatim>\<open>NULL\<close>. After the
  guard of the \<open>i2c_read\<close> branch comes the declaration \<^verbatim>\<open>char data[len]\<close> (line 118), an
  array of variable length: C requires its size to be greater than zero each time the
  declaration is reached, and defines nothing otherwise. Behind it \<open>len\<close> is at least \<open>1\<close>;
  it becomes the \<^verbatim>\<open>unsigned int\<close> parameter of \<^verbatim>\<open>i2c_read\<close> (modulo \<open>2 ^ 32\<close>) and the size
  given to \<^verbatim>\<open>erl_mk_binary\<close>.
\<close>

definition i2c_handle_request :: "eterm \<Rightarrow> i2c_info \<Rightarrow> world \<Rightarrow> world outcome" where
  "i2c_handle_request emsg i2c w =
     (case erl_element 1 emsg of
        None \<Rightarrow> Inl (Exit ''erl_element(emsg_type)'', w)
      | Some emsg_type \<Rightarrow>
     (case ERL_ATOM_PTR emsg_type of
        Inl f \<Rightarrow> Inl (f, w)
      | Inr ty \<Rightarrow>
          if ty = ''i2c_write'' then
            (case erl_element 2 emsg of
               None \<Rightarrow> Inl (Undefined ''i2c_write: edata is NULL'', w)
             | Some edata \<Rightarrow>
                 (case ERL_BIN_PTR edata of
                    Inl f \<Rightarrow> Inl (f, w)
                  | Inr bytes \<Rightarrow>
                      (case i2c_write i2c bytes w of (res, w1) \<Rightarrow>
                         Inr (erlcmd_send (EInt res) w1))))
          else if ty = ''i2c_read'' then
            (case erl_element 2 emsg of
               None \<Rightarrow> Inl (Undefined ''i2c_read: elen is NULL'', w)
             | Some elen \<Rightarrow>
                 (case ERL_INT_VALUE elen of
                    Inl f \<Rightarrow> Inl (f, w)
                  | Inr len \<Rightarrow>
                      if len > I2C_SMBUS_BLOCK_MAX
                      then Inl (Exit ''Can't get more than %d bytes at time: %d'', w)
                      else if len \<le> 0
                      then Inl (Undefined ''char data[len]: size is not positive'', w)
                      else
                        (case i2c_read i2c (nat (len mod 2 ^ 32)) w of (r, data, w1) \<Rightarrow>
                           if r < 0 then Inr (erlcmd_send (EInt (-1)) w1)
                           else Inr (erlcmd_send (EBin (take (nat len) data)) w1))))
          else Inl (Exit ''unexpected request %s'', w)))"

section \<open>Notions used to state the properties\<close>

text \<open>
  The invariant of the GPIO resource: the value descriptor is open exactly when the state
  is not \<open>GPIO_CLOSED\<close>. The structure marks "no descriptor" by \<open>fd = -1\<close>, which is what
  \<^verbatim>\<open>gpio_release\<close> tests before it calls \<^verbatim>\<open>close\<close>.
\<close>

definition gpio_inv :: "gpio \<Rightarrow> bool" where
  "gpio_inv pin = ((fd pin \<noteq> -1) = (state pin \<noteq> GPIO_CLOSED))"

text \<open>The world an operation ends in, whether it returned or ended the process.\<close>

definition world_of :: "('a \<Rightarrow> world) \<Rightarrow> 'a outcome \<Rightarrow> world" where
  "world_of g r = (case r of Inl (f, w) \<Rightarrow> w | Inr x \<Rightarrow> g x)"

text \<open>The system calls issued between two worlds, and whether a call opens a given file.\<close>

definition calls_since :: "world \<Rightarrow> world \<Rightarrow> syscall list" where
  "calls_since w w' = drop (length (trace w)) (trace w')"

definition opens :: "string \<Rightarrow> syscall \<Rightarrow> bool" where
  "opens p c = (case c of SysOpen q f \<Rightarrow> q = p | _ \<Rightarrow> False)"

text \<open>\<open>quiet q w w'\<close>: \<open>w'\<close> continues \<open>w\<close>, and no call in between opens the file \<open>q\<close>.\<close>

definition quiet :: "string \<Rightarrow> world \<Rightarrow> world \<Rightarrow> bool" where
  "quiet q w w' = (prefix (trace w) (trace w') \<and> \<not> list_ex (opens q) (calls_since w w'))"

text \<open>
  The call the event loop waits in: \<^verbatim>\<open>poll\<close> without timeout, on the input of the command
  channel and, in state \<open>GPIO_INPUT_WITH_INTERRUPTS\<close> only, on the value descriptor.
\<close>

definition main_wait :: "gpio \<Rightarrow> syscall" where
  "main_wait pin =
     SysPoll (if state pin = GPIO_INPUT_WITH_INTERRUPTS
              then [(STDIN_FILENO, POLLIN), (fd pin, POLLPRI)]
              else [(STDIN_FILENO, POLLIN)]) (-1)"

subsection \<open>Kernels for concrete runs\<close>

text \<open>
  A world with nothing done yet, and kernels that answer by the call alone: one where every
  file exists and every call succeeds, one where no pin is exported and no direction file
  exists but every other call succeeds, one where the files exist but none can be opened
  for writing, and one where only pin 7 is exported and nothing else can be opened.
\<close>

definition start :: "kernel \<Rightarrow> world" where
  "start k = \<lparr>kern = k, trace = [], sent = []\<rparr>"

definition kernel_of :: "(syscall \<Rightarrow> int) \<Rightarrow> kernel" where
  "kernel_of f = \<lparr>k_ret = (\<lambda>h. f), k_errno = (\<lambda>h c. 0), k_data = (\<lambda>h c. None),
                  k_revents = (\<lambda>h c i. 0)\<rparr>"

definition ret_all_ok :: "syscall \<Rightarrow> int" where
  "ret_all_ok c =
     (case c of SysOpen p f \<Rightarrow> 3 | SysWrite d s \<Rightarrow> int (length s)
              | SysPwrite d s off \<Rightarrow> int (length s) | _ \<Rightarrow> 0)"

definition ret_fresh :: "syscall \<Rightarrow> int" where
  "ret_fresh c =
     (case c of SysAccess p \<Rightarrow> -1 | SysOpen p f \<Rightarrow> 3 | SysWrite d s \<Rightarrow> int (length s)
              | SysPwrite d s off \<Rightarrow> int (length s) | _ \<Rightarrow> 0)"

definition ret_read_only :: "syscall \<Rightarrow> int" where
  "ret_read_only c = (case c of SysOpen p f \<Rightarrow> (if f = O_WRONLY then -1 else 3) | _ \<Rightarrow> 0)"

definition ret_only_pin7 :: "syscall \<Rightarrow> int" where
  "ret_only_pin7 c =
     (case c of SysAccess p \<Rightarrow> (if p = ''/sys/class/gpio/gpio7/value'' then 0 else -1)
              | SysOpen p f \<Rightarrow> (if p = ''/sys/class/gpio/gpio7/value'' then 3 else -1)
              | _ \<Rightarrow> 0)"

text \<open>
  A kernel whose every \<^verbatim>\<open>read\<close> delivers the same bytes (or fails), and one whose every
  \<^verbatim>\<open>poll\<close> returns the same value, \<^verbatim>\<open>errno\<close> and \<^verbatim>\<open>revents\<close>.
\<close>

definition kernel_reading :: "string option \<Rightarrow> kernel" where
  "kernel_reading got = \<lparr>k_ret = (\<lambda>h c. 0), k_errno = (\<lambda>h c. 0), k_data = (\<lambda>h c. got),
                          k_revents = (\<lambda>h c i. 0)\<rparr>"

definition kernel_polling :: "int \<Rightarrow> int \<Rightarrow> 16 word list \<Rightarrow> kernel" where
  "kernel_polling rc errno revents =
     \<lparr>k_ret = (\<lambda>h c. case c of SysPoll fds t \<Rightarrow> rc | _ \<Rightarrow> 0), k_errno = (\<lambda>h c. errno),
      k_data = (\<lambda>h c. None), k_revents = (\<lambda>h c i. revents ! i)\<rparr>"

lemmas run_defs =
  start_def kernel_of_def ret_all_ok_def ret_fresh_def ret_read_only_def ret_only_pin7_def
  gpio_open_def gpio_open_direction_def gpio_open_value_def gpio_release_def gpio_init_def
  sysfs_write_file_def sys_def gpio_path_def to_size_t_def Let_def

section \<open>System calls and traces\<close>

lemma fmt_d_4: "fmt_d 4 = ''4''"
  by (simp add: fmt_d_def dec_nat.simps)

lemma fmt_d_7: "fmt_d 7 = ''7''"
  by (simp add: fmt_d_def dec_nat.simps)

lemma fmt_d_minus_1: "fmt_d (-1) = ''-1''"
  by (simp add: fmt_d_def dec_nat.simps)

lemma sys_world:
  "trace (snd (sys w c)) = trace w @ [c]"
  "kern (snd (sys w c)) = kern w"
  "sent (snd (sys w c)) = sent w"
  "fst (sys w c) = k_ret (kern w) (trace w) c"
  by (simp_all add: sys_def)

lemma sysfs_write_file_trace:
  "trace (snd (sysfs_write_file p v w)) = trace w @ SysOpen p O_WRONLY #
     (let d = k_ret (kern w) (trace w) (SysOpen p O_WRONLY)
      in if d < 0 then [] else [SysWrite d v, SysClose d])"
  by (simp add: sysfs_write_file_def sys_def Let_def split_def)

text \<open>
  When \<^verbatim>\<open>sysfs_write_file\<close> reports success: the file opened, and \<^verbatim>\<open>write\<close> returned the
  length of the string and not \<open>0\<close> (so the string was not empty).
\<close>

lemma sysfs_write_file_success:
  "fst (sysfs_write_file p v w) \<noteq> 0 \<longleftrightarrow>
     (let d = k_ret (kern w) (trace w) (SysOpen p O_WRONLY);
          n = k_ret (kern w) (trace w @ [SysOpen p O_WRONLY]) (SysWrite d v)
      in 0 \<le> d \<and> to_size_t n = length v \<and> n \<noteq> 0)"
  by (auto simp add: sysfs_write_file_def sys_def Let_def)

lemma quietI: "trace w' = trace w @ cs \<Longrightarrow> \<not> list_ex (opens q) cs \<Longrightarrow> quiet q w w'"
  by (simp add: quiet_def calls_since_def)

lemma quietE: "quiet q w w' \<Longrightarrow> \<exists>cs. trace w' = trace w @ cs \<and> \<not> list_ex (opens q) cs"
  by (auto simp add: quiet_def calls_since_def prefix_def)

lemma quiet_refl: "quiet q w w"
  by (simp add: quiet_def calls_since_def)

lemma quiet_trans: "quiet q w w1 \<Longrightarrow> quiet q w1 w2 \<Longrightarrow> quiet q w w2"
  by (auto dest!: quietE intro!: quietI [where cs = "cs1 @ cs2" for cs1 cs2])

lemma quiet_step_sys: "\<not> opens q c \<Longrightarrow> quiet q w (snd (sys w c))"
  by (rule quietI [where cs = "[c]"]) (simp_all add: sys_world)

lemma quiet_step_sysfs: "p \<noteq> q \<Longrightarrow> quiet q w (snd (sysfs_write_file p v w))"
  by (rule quietI [OF sysfs_write_file_trace]) (simp add: opens_def Let_def)

lemma quiet_step_release:
  "q \<noteq> ''/sys/class/gpio/unexport'' \<Longrightarrow> quiet q w (snd (snd (gpio_release pin w)))"
  by (auto simp add: gpio_release_def Let_def opens_def
      intro!: quiet_refl quiet_step_sys quiet_step_sysfs
              quiet_trans [OF quiet_step_sys quiet_step_sysfs])

lemma quiet_sys: "quiet q w W \<Longrightarrow> \<not> opens q c \<Longrightarrow> quiet q w (snd (sys W c))"
  by (erule quiet_trans) (rule quiet_step_sys)

lemma quiet_sysfs: "quiet q w W \<Longrightarrow> p \<noteq> q \<Longrightarrow> quiet q w (snd (sysfs_write_file p v W))"
  by (erule quiet_trans) (rule quiet_step_sysfs)

lemma quiet_release:
  "quiet q w W \<Longrightarrow> q \<noteq> ''/sys/class/gpio/unexport''
     \<Longrightarrow> quiet q w (snd (snd (gpio_release pin W)))"
  by (erule quiet_trans) (rule quiet_step_release)

lemma gpio_path_neq [simp]:
  "gpio_path n f \<noteq> ''/sys/class/gpio/export''"
  "gpio_path n f \<noteq> ''/sys/class/gpio/unexport''"
  by (simp_all add: gpio_path_def)

lemma quiet_open_value:
  "quiet ''/sys/class/gpio/export'' w W \<Longrightarrow>
   quiet ''/sys/class/gpio/export'' w (snd (snd (gpio_open_value pin n W)))"
  by (simp add: gpio_open_value_def Let_def split_def quiet_sys quiet_release opens_def)

lemma quiet_open_direction:
  "quiet ''/sys/class/gpio/export'' w W \<Longrightarrow>
   quiet ''/sys/class/gpio/export'' w (snd (snd (gpio_open_direction pin n dir W)))"
  by (simp add: gpio_open_direction_def Let_def split_def quiet_sys quiet_sysfs
        quiet_open_value opens_def)

lemma prefix_sys: "prefix xs (trace W) \<Longrightarrow> prefix xs (trace (snd (sys W c)))"
  by (simp add: sys_world)

lemma prefix_sysfs: "prefix xs (trace W) \<Longrightarrow> prefix xs (trace (snd (sysfs_write_file p v W)))"
  by (simp add: sysfs_write_file_trace)

lemma prefix_release:
  "prefix xs (trace W) \<Longrightarrow> prefix xs (trace (snd (snd (gpio_release pin W))))"
  by (simp add: gpio_release_def Let_def prefix_sys prefix_sysfs)

lemma prefix_open_value:
  "prefix xs (trace W) \<Longrightarrow> prefix xs (trace (snd (snd (gpio_open_value pin n W))))"
  by (simp add: gpio_open_value_def Let_def split_def prefix_sys prefix_release)

lemma prefix_open_direction:
  "prefix xs (trace W) \<Longrightarrow> prefix xs (trace (snd (snd (gpio_open_direction pin n dir W))))"
  by (simp add: gpio_open_direction_def Let_def split_def prefix_sys prefix_sysfs
        prefix_open_value)

section \<open>The GPIO resource\<close>

lemma gpio_release_fields:
  "already_exported (fst (snd (gpio_release pin w))) = already_exported pin"
  "state (fst (snd (gpio_release pin w))) = GPIO_CLOSED"
  by (simp_all add: gpio_release_def Let_def)

lemma gpio_release_closed: "state pin = GPIO_CLOSED \<Longrightarrow> gpio_release pin w = (1, pin, w)"
  by (simp add: gpio_release_def)

lemma gpio_release_inv: "gpio_inv pin \<Longrightarrow> gpio_inv (fst (snd (gpio_release pin w)))"
  by (simp add: gpio_release_def gpio_inv_def Let_def)

lemma already_exported_open_value:
  "already_exported (fst (snd (gpio_open_value pin n w))) = already_exported pin"
  by (simp add: gpio_open_value_def Let_def split_def gpio_release_fields)

lemma already_exported_open_direction:
  "already_exported (fst (snd (gpio_open_direction pin n dir w))) = already_exported pin"
  by (simp add: gpio_open_direction_def Let_def split_def already_exported_open_value)

lemma gpio_open_release:
  "gpio_open pin n dir w =
     gpio_open (fst (snd (gpio_release pin w))) n dir (snd (snd (gpio_release pin w)))"
  by (simp add: gpio_open_def gpio_release_fields gpio_release_closed)

lemma gpio_open_value_ret:
  "fst (gpio_open_value pin n w) = 1 \<or> fst (gpio_open_value pin n w) = -1"
  by (simp add: gpio_open_value_def Let_def split_def)

lemma gpio_open_direction_ret:
  "fst (gpio_open_direction pin n dir w) = 1 \<or> fst (gpio_open_direction pin n dir w) = -1"
  using gpio_open_value_ret by (simp add: gpio_open_direction_def Let_def split_def)

lemma gpio_open_ret: "fst (gpio_open pin n dir w) = 1 \<or> fst (gpio_open pin n dir w) = -1"
  using gpio_open_direction_ret by (simp add: gpio_open_def Let_def split_def)

lemma gpio_open_ret_nonzero: "fst (gpio_open pin n dir w) \<noteq> 0"
  using gpio_open_ret [of pin n dir w] by auto

subsection \<open>The invariant of the resource\<close>

text \<open>
  Claim C1: after every operation of the GPIO controller the value descriptor is open if and
  only if the state is not Closed, also when \<open>open\<close> fails partway, for example when the
  write to the direction file fails after the direction has been validated.

  \<^verbatim>\<open>gpio_open\<close> does not keep it. It stores the new state as soon as the direction string
  is recognised (lines 122 and 125) and returns \<open>-1\<close> without undoing that when the write to
  the direction file fails (line 135), whereas the failure to open the value file, a few
  lines below, goes through \<^verbatim>\<open>gpio_release\<close>. Run on the initial structure for an
  exported pin 4 whose direction file cannot be opened for writing, \<^verbatim>\<open>gpio_open\<close> returns
  \<open>-1\<close> and leaves the state \<open>GPIO_INPUT\<close> with no descriptor.
\<close>

theorem gpio_open_direction_failure_breaks_invariant:
  "gpio_inv gpio_init \<and>
   (case gpio_open gpio_init 4 ''input'' (start (kernel_of ret_read_only)) of
      (r, pin, w) \<Rightarrow>
        r = -1 \<and> state pin = GPIO_INPUT \<and> fd pin = -1 \<and> \<not> gpio_inv pin \<and>
        trace w = [SysAccess ''/sys/class/gpio/gpio4/value'',
                   SysAccess ''/sys/class/gpio/gpio4/direction'',
                   SysOpen ''/sys/class/gpio/gpio4/direction'' O_WRONLY])"
  by (simp add: run_defs gpio_inv_def fmt_d_4)

subsection \<open>Replies of the dispatcher\<close>

text \<open>
  Claim C2: an \<open>init(pinNumber, direction)\<close> request is answered \<open>ok\<close> when the open
  succeeds and \<open>error(gpio_init_fail)\<close> when it fails, for example on a direction that is
  neither \<open>input\<close> nor \<open>output\<close>.

  The handler tests \<^verbatim>\<open>if (gpio_open(...))\<close> (line 284), and \<^verbatim>\<open>gpio_open\<close> returns \<open>1\<close> or
  \<open>-1\<close>, both of them true in C. So every \<open>init\<close> request with an integer and an atom is
  answered \<open>ok\<close>: the first conjunct says so for all of them, the other two run the request
  \<open>init(4, sideways)\<close>, where \<^verbatim>\<open>gpio_open\<close> returns \<open>-1\<close> and the reply is \<open>ok\<close>.
\<close>

theorem gpio_init_reply_is_always_ok:
  "gpio_handle_request (ETuple [EAtom ''init'', EInt n, EAtom dir]) pin w =
     Inr (fst (snd (gpio_open pin n dir w)),
          erlcmd_send (EAtom ''ok'') (snd (snd (gpio_open pin n dir w)))) \<and>
   fst (gpio_open gpio_init 4 ''sideways'' (start (kernel_of ret_all_ok))) = -1 \<and>
   world_of snd (gpio_handle_request (ETuple [EAtom ''init'', EInt 4, EAtom ''sideways''])
              gpio_init (start (kernel_of ret_all_ok))) =
     \<lparr>kern = kernel_of ret_all_ok, trace = [SysAccess ''/sys/class/gpio/gpio4/value''],
      sent = [EAtom ''ok'']\<rparr>"
proof -
  have general: "gpio_handle_request (ETuple [EAtom ''init'', EInt n, EAtom dir]) pin w =
     Inr (fst (snd (gpio_open pin n dir w)),
          erlcmd_send (EAtom ''ok'') (snd (snd (gpio_open pin n dir w))))" for n dir pin w
    by (simp add: gpio_handle_request_def gpio_handle_init_def erl_element_def
          ERL_ATOM_PTR_def ERL_INT_VALUE_def split_def gpio_open_ret_nonzero)
  have run: "gpio_open gpio_init 4 ''sideways'' (start (kernel_of ret_all_ok)) =
     (-1, gpio_init\<lparr>already_exported := 1\<rparr>,
      \<lparr>kern = kernel_of ret_all_ok, trace = [SysAccess ''/sys/class/gpio/gpio4/value''],
       sent = []\<rparr>)"
    by (simp add: run_defs fmt_d_4)
  show ?thesis
    by (simp only: general run) (simp add: world_of_def erlcmd_send_def)
qed

text \<open>
  Claim C3: every inbound message that matches no known request ends the process at once,
  at every layer of the message, including a \<open>call(token, request)\<close> whose inner function
  tag is none of \<open>write\<close>, \<open>read\<close> and \<open>set_int\<close>.

  The \<open>call\<close> branch has no final \<^verbatim>\<open>else\<close> (lines 315-340): for an unknown tag \<^verbatim>\<open>resp\<close>
  stays the null pointer and the handler goes on to \<^verbatim>\<open>erl_format\<close> with it, with no call to
  \<^verbatim>\<open>errx\<close>. The \<open>cast\<close> branch does end the process on an unknown command (line 301).
\<close>

theorem gpio_call_unknown_function_not_fatal:
  "gpio_handle_request (ETuple [EAtom ''call'', refp, ETuple [EAtom ''toggle'']]) pin w
     = Inl (Undefined ''erl_format: resp is NULL'', w) \<and>
   gpio_handle_request (ETuple [EAtom ''cast'', EAtom ''toggle'']) pin w
     = Inl (Exit ''cast: bad command'', w)"
  by (simp add: gpio_handle_request_def gpio_handle_call_def gpio_handle_cast_def
        gpio_call_resp_def erl_element_def ERL_ATOM_PTR_def)

text \<open>
  Claim C4: a \<open>call(token, write(value))\<close> received while the state is not Output makes the
  write return failure without any system call, and the reply is
  \<open>reply(token, error(gpio_write_failed))\<close>; in state Output with a successful byte write the
  reply is \<open>reply(token, ok)\<close>.

  \<^verbatim>\<open>gpio_write\<close> does return \<open>-1\<close> with the world untouched, but the handler tests
  \<^verbatim>\<open>if (gpio_write(pin, value))\<close> (line 321) and \<open>-1\<close> is true in C: the reply is
  \<open>reply(token, ok)\<close> in that case too. The \<open>read\<close> branch, next to it, compares with \<open>-1\<close>.
\<close>

theorem gpio_write_reply_is_always_ok:
  "(state pin \<noteq> GPIO_OUTPUT \<longrightarrow>
      gpio_write pin v w = Inr (-1, w) \<and>
      gpio_handle_request (ETuple [EAtom ''call'', refp, ETuple [EAtom ''write'', EInt v]]) pin w
        = Inr (pin, erlcmd_send (ETuple [EAtom ''port_reply'', refp, EAtom ''ok'']) w)) \<and>
   (state pin = GPIO_OUTPUT \<and>
    k_ret (kern w) (trace w) (SysPwrite (fd pin) [if v \<noteq> 0 then CHR ''1'' else CHR ''0''] 0) = 1 \<longrightarrow>
      gpio_handle_request (ETuple [EAtom ''call'', refp, ETuple [EAtom ''write'', EInt v]]) pin w
        = Inr (pin, erlcmd_send (ETuple [EAtom ''port_reply'', refp, EAtom ''ok''])
                 (w\<lparr>trace := trace w @
                    [SysPwrite (fd pin) [if v \<noteq> 0 then CHR ''1'' else CHR ''0''] 0]\<rparr>)))"
  by (simp add: gpio_handle_request_def gpio_handle_call_def gpio_call_resp_def erl_element_def
        ERL_ATOM_PTR_def ERL_INT_VALUE_def gpio_write_def sys_def to_size_t_def Let_def)

theorem gpio_write_reply_is_always_ok_witness:
  "state (gpio_init\<lparr>state := GPIO_INPUT, fd := 3\<rparr>) \<noteq> GPIO_OUTPUT \<and>
   gpio_write (gpio_init\<lparr>state := GPIO_INPUT, fd := 3\<rparr>) 1 (start (kernel_of ret_all_ok))
     = Inr (-1, start (kernel_of ret_all_ok)) \<and>
   world_of snd (gpio_handle_request
       (ETuple [EAtom ''call'', ERef 9, ETuple [EAtom ''write'', EInt 1]])
       (gpio_init\<lparr>state := GPIO_INPUT, fd := 3\<rparr>) (start (kernel_of ret_all_ok)))
     = \<lparr>kern = kernel_of ret_all_ok, trace = [],
        sent = [ETuple [EAtom ''port_reply'', ERef 9, EAtom ''ok'']]\<rparr> \<and>
   world_of snd (gpio_handle_request
       (ETuple [EAtom ''call'', ERef 9, ETuple [EAtom ''write'', EInt 1]])
       (gpio_init\<lparr>state := GPIO_OUTPUT, fd := 3\<rparr>) (start (kernel_of ret_all_ok)))
     = \<lparr>kern = kernel_of ret_all_ok, trace = [SysPwrite 3 ''1'' 0],
        sent = [ETuple [EAtom ''port_reply'', ERef 9, EAtom ''ok'']]\<rparr>"
  using gpio_write_reply_is_always_ok [of "gpio_init\<lparr>state := GPIO_INPUT, fd := 3\<rparr>" 1
      "start (kernel_of ret_all_ok)" "ERef 9"]
    gpio_write_reply_is_always_ok [of "gpio_init\<lparr>state := GPIO_OUTPUT, fd := 3\<rparr>" 1
      "start (kernel_of ret_all_ok)" "ERef 9"]
  by (simp add: gpio_init_def start_def kernel_of_def ret_all_ok_def world_of_def erlcmd_send_def)

text \<open>
  Claim C5: for every \<open>open(pinNumber, direction)\<close>, if the value file of the pin does not
  exist, \<open>open\<close> writes the pin number to the export file before any other control-file
  access and sets \<open>ownsExport\<close> to true; if the value file exists, \<open>ownsExport\<close> is set to
  false and no write to the export file occurs.

  Two things differ in \<^verbatim>\<open>gpio_open\<close>, both written out in the code. A pin that is still
  open is released first (line 97), which closes its descriptor and may write to the unexport
  file, before the export file is touched. And \<^verbatim>\<open>already_exported\<close> is cleared only after
  the export write has succeeded: when that write fails, \<^verbatim>\<open>gpio_open\<close> returns at line 113
  and the field keeps the value it had.

  The counterexample runs both. With only pin 7 exported, pin 7 is opened and released, which
  leaves \<^verbatim>\<open>already_exported = 1\<close>; opening pin 4, whose value file is absent, then fails at
  the export file and leaves \<^verbatim>\<open>already_exported = 1\<close>, that is \<open>ownsExport\<close> false. With
  nothing exported and every write succeeding, pin 7 is opened and then pin 4 is opened
  without a release in between: the calls of the second \<^verbatim>\<open>gpio_open\<close> start with closing
  the descriptor of pin 7 and writing \<open>7\<close> to the unexport file.
\<close>

theorem gpio_open_export_counterexample:
  "(case gpio_open gpio_init 7 ''input'' (start (kernel_of ret_only_pin7)) of (r1, p1, w1) \<Rightarrow>
    case gpio_release p1 w1 of (r2, p2, w2) \<Rightarrow>
    case gpio_open p2 4 ''input'' w2 of (r3, p3, w3) \<Rightarrow>
      r1 = 1 \<and> state p2 = GPIO_CLOSED \<and>
      fst (sys w2 (SysAccess ''/sys/class/gpio/gpio4/value'')) = -1 \<and>
      r3 = -1 \<and> already_exported p3 = 1) \<and>
   (case gpio_open gpio_init 7 ''output'' (start (kernel_of ret_fresh)) of (r1, p1, w1) \<Rightarrow>
    case gpio_open p1 4 ''input'' w1 of (r2, p2, w2) \<Rightarrow>
      r1 = 1 \<and> r2 = 1 \<and>
      fst (sys w1 (SysAccess ''/sys/class/gpio/gpio4/value'')) = -1 \<and>
      calls_since w1 w2 =
        [SysClose 3, SysOpen ''/sys/class/gpio/unexport'' O_WRONLY, SysWrite 3 ''7'', SysClose 3,
         SysAccess ''/sys/class/gpio/gpio4/value'',
         SysOpen ''/sys/class/gpio/export'' O_WRONLY, SysWrite 3 ''4'', SysClose 3,
         SysAccess ''/sys/class/gpio/gpio4/direction'',
         SysOpen ''/sys/class/gpio/gpio4/value'' O_RDONLY])"
  by (simp add: run_defs fmt_d_4 fmt_d_7 calls_since_def)

text \<open>
  Claim C5 as the code has it. Let \<open>w1\<close> be the world after the release of a pin still open
  (\<open>w1 = w\<close> for a Closed resource) and \<open>a\<close> the answer to the existence test of the value
  file. If the file is absent (\<open>a = -1\<close>), the calls that follow the test start with the
  opening of the export file and, if it opens, the write of the pin number and the close;
  \<^verbatim>\<open>already_exported\<close> is \<open>0\<close> in the result if that write succeeded (\<open>e \<noteq> 0\<close>), and if it
  failed (\<open>e = 0\<close>) \<^verbatim>\<open>gpio_open\<close> returns \<open>-1\<close> with the structure as the release left it.
  If the file exists, \<^verbatim>\<open>already_exported\<close> is \<open>1\<close> in the result and no call of the whole
  \<^verbatim>\<open>gpio_open\<close> opens the export file.
\<close>

theorem gpio_open_export_ownership:
  assumes rel: "gpio_release pin w = (r0, pin1, w1)"
    and acc: "sys w1 (SysAccess (gpio_path n ''value'')) = (a, w2)"
    and ex: "sysfs_write_file ''/sys/class/gpio/export'' (fmt_d n) w2 = (e, w3)"
    and op: "gpio_open pin n dir w = (r, pin', w')"
  shows "(state pin = GPIO_CLOSED \<longrightarrow> w1 = w) \<and>
    (a = -1 \<longrightarrow>
       prefix (trace w1 @ [SysAccess (gpio_path n ''value''),
                           SysOpen ''/sys/class/gpio/export'' O_WRONLY]) (trace w') \<and>
       (0 \<le> k_ret (kern w2) (trace w2) (SysOpen ''/sys/class/gpio/export'' O_WRONLY) \<longrightarrow>
          prefix (trace w1 @ [SysAccess (gpio_path n ''value''),
                              SysOpen ''/sys/class/gpio/export'' O_WRONLY,
                              SysWrite (k_ret (kern w2) (trace w2)
                                          (SysOpen ''/sys/class/gpio/export'' O_WRONLY)) (fmt_d n),
                              SysClose (k_ret (kern w2) (trace w2)
                                          (SysOpen ''/sys/class/gpio/export'' O_WRONLY))])
            (trace w')) \<and>
       (e \<noteq> 0 \<longrightarrow> already_exported pin' = 0) \<and>
       (e = 0 \<longrightarrow> r = -1 \<and> pin' = pin1 \<and> w' = w3)) \<and>
    (a \<noteq> -1 \<longrightarrow>
       already_exported pin' = 1 \<and>
       \<not> list_ex (opens ''/sys/class/gpio/export'') (calls_since w w'))"
proof -
  have closed: "state pin1 = GPIO_CLOSED"
    using gpio_release_fields(2) [of pin w] rel by simp
  have op1: "gpio_open pin1 n dir w1 = (r, pin', w')"
    using gpio_open_release [of pin n dir w] rel op by simp
  have w2: "w2 = snd (sys w1 (SysAccess (gpio_path n ''value'')))"
    and a: "a = fst (sys w1 (SysAccess (gpio_path n ''value'')))"
    using acc by simp_all
  have w3: "w3 = snd (sysfs_write_file ''/sys/class/gpio/export'' (fmt_d n) w2)"
    using ex by simp
  have tr2: "trace w2 = trace w1 @ [SysAccess (gpio_path n ''value'')]"
    by (simp add: w2 sys_world)
  have tr3: "trace w3 = trace w2 @ SysOpen ''/sys/class/gpio/export'' O_WRONLY #
     (let d = k_ret (kern w2) (trace w2) (SysOpen ''/sys/class/gpio/export'' O_WRONLY)
      in if d < 0 then [] else [SysWrite d (fmt_d n), SysClose d])"
    unfolding w3 by (rule sysfs_write_file_trace)
  have c0: "state pin = GPIO_CLOSED \<longrightarrow> w1 = w"
    using rel by (auto simp add: gpio_release_closed)
  have body: "(r, pin', w') =
      (if a = -1
       then (if e = 0 then (-1, pin1, w3)
             else gpio_open_direction (pin1\<lparr>already_exported := 0\<rparr>) n dir w3)
       else gpio_open_direction (pin1\<lparr>already_exported := 1\<rparr>) n dir w2)"
    using closed acc ex op1 [symmetric] by (simp add: gpio_open_def)
  have pre3: "prefix (trace w1 @ [SysAccess (gpio_path n ''value''),
                           SysOpen ''/sys/class/gpio/export'' O_WRONLY]) (trace w3)"
    by (simp add: tr3 tr2)
  have pre3': "prefix (trace w1 @ [SysAccess (gpio_path n ''value''),
                              SysOpen ''/sys/class/gpio/export'' O_WRONLY,
                              SysWrite (k_ret (kern w2) (trace w2)
                                          (SysOpen ''/sys/class/gpio/export'' O_WRONLY)) (fmt_d n),
                              SysClose (k_ret (kern w2) (trace w2)
                                          (SysOpen ''/sys/class/gpio/export'' O_WRONLY))])
            (trace w3)"
    if "0 \<le> k_ret (kern w2) (trace w2) (SysOpen ''/sys/class/gpio/export'' O_WRONLY)"
    using that by (simp add: tr3 tr2 Let_def)
  have absent: "prefix xs (trace w')" if "a = -1" "prefix xs (trace w3)" for xs
  proof (cases "e = 0")
    case True
    with body that show ?thesis by simp
  next
    case False
    with body that(1)
    have "w' = snd (snd (gpio_open_direction (pin1\<lparr>already_exported := 0\<rparr>) n dir w3))"
      by (simp add: prod_eq_iff)
    with that(2) show ?thesis by (simp add: prefix_open_direction)
  qed
  have owns: "already_exported pin' = 0" if "a = -1" "e \<noteq> 0"
  proof -
    from body that
    have "pin' = fst (snd (gpio_open_direction (pin1\<lparr>already_exported := 0\<rparr>) n dir w3))"
      by (simp add: prod_eq_iff)
    then show ?thesis by (simp add: already_exported_open_direction)
  qed
  have fails: "r = -1 \<and> pin' = pin1 \<and> w' = w3" if "a = -1" "e = 0"
    using body that by simp
  have present: "already_exported pin' = 1 \<and>
       \<not> list_ex (opens ''/sys/class/gpio/export'') (calls_since w w')" if "a \<noteq> -1"
  proof -
    from body that
    have res: "pin' = fst (snd (gpio_open_direction (pin1\<lparr>already_exported := 1\<rparr>) n dir w2))"
      "w' = snd (snd (gpio_open_direction (pin1\<lparr>already_exported := 1\<rparr>) n dir w2))"
      by (simp_all add: prod_eq_iff)
    have "w1 = snd (snd (gpio_release pin w))"
      using rel by simp
    then have "quiet ''/sys/class/gpio/export'' w w1"
      by (simp add: quiet_step_release)
    then have "quiet ''/sys/class/gpio/export'' w w2"
      unfolding w2 by (rule quiet_sys) (simp add: opens_def)
    then have "quiet ''/sys/class/gpio/export'' w w'"
      unfolding res by (rule quiet_open_direction)
    then show ?thesis
      by (simp add: res(1) already_exported_open_direction quiet_def)
  qed
  show ?thesis
    using c0 absent [OF _ pre3] absent [OF _ pre3'] owns fails present by blast
qed

theorem gpio_open_export_ownership_witness:
  "fst (sys (start (kernel_of ret_fresh)) (SysAccess (gpio_path 4 ''value''))) = -1 \<and>
   already_exported (fst (snd (gpio_open gpio_init 4 ''input'' (start (kernel_of ret_fresh))))) = 0 \<and>
   prefix [SysAccess ''/sys/class/gpio/gpio4/value'', SysOpen ''/sys/class/gpio/export'' O_WRONLY,
           SysWrite 3 ''4'', SysClose 3]
     (trace (snd (snd (gpio_open gpio_init 4 ''input'' (start (kernel_of ret_fresh)))))) \<and>
   fst (sys (start (kernel_of ret_only_pin7)) (SysAccess (gpio_path 4 ''value''))) = -1 \<and>
   gpio_open gpio_init 4 ''input'' (start (kernel_of ret_only_pin7)) =
     (-1, gpio_init,
      \<lparr>kern = kernel_of ret_only_pin7,
       trace = [SysAccess ''/sys/class/gpio/gpio4/value'',
                SysOpen ''/sys/class/gpio/export'' O_WRONLY],
       sent = []\<rparr>) \<and>
   fst (sys (start (kernel_of ret_all_ok)) (SysAccess (gpio_path 4 ''value''))) \<noteq> -1 \<and>
   already_exported (fst (snd (gpio_open gpio_init 4 ''input'' (start (kernel_of ret_all_ok))))) = 1 \<and>
   \<not> list_ex (opens ''/sys/class/gpio/export'')
       (calls_since (start (kernel_of ret_all_ok))
          (snd (snd (gpio_open gpio_init 4 ''input'' (start (kernel_of ret_all_ok))))))"
proof -
  let ?w = "start (kernel_of ret_fresh)"
  let ?u = "start (kernel_of ret_only_pin7)"
  let ?v = "start (kernel_of ret_all_ok)"
  let ?a = "SysAccess (gpio_path 4 ''value'')"
  have rel: "gpio_release gpio_init w = (1, gpio_init, w)" for w
    by (simp add: gpio_release_def gpio_init_def)
  have acc: "sys ?w ?a = (-1, snd (sys ?w ?a))"
    by (simp add: sys_def start_def kernel_of_def ret_fresh_def)
  have acc_u: "sys ?u ?a = (-1, snd (sys ?u ?a))"
    by (simp add: sys_def start_def kernel_of_def ret_only_pin7_def gpio_path_def fmt_d_4)
  have acc_v: "sys ?v ?a = (0, snd (sys ?v ?a))"
    by (simp add: sys_def start_def kernel_of_def ret_all_ok_def)
  have ex: "sysfs_write_file ''/sys/class/gpio/export'' (fmt_d 4) (snd (sys ?w ?a))
      = (1, snd (sysfs_write_file ''/sys/class/gpio/export'' (fmt_d 4) (snd (sys ?w ?a))))"
    by (simp add: run_defs fmt_d_4)
  have ex_u: "sysfs_write_file ''/sys/class/gpio/export'' (fmt_d 4) (snd (sys ?u ?a))
      = (0, \<lparr>kern = kernel_of ret_only_pin7,
             trace = [SysAccess ''/sys/class/gpio/gpio4/value'',
                      SysOpen ''/sys/class/gpio/export'' O_WRONLY],
             sent = []\<rparr>)"
    by (simp add: run_defs fmt_d_4)
  have ex_v: "sysfs_write_file ''/sys/class/gpio/export'' (fmt_d 4) (snd (sys ?v ?a))
      = (fst (sysfs_write_file ''/sys/class/gpio/export'' (fmt_d 4) (snd (sys ?v ?a))),
         snd (sysfs_write_file ''/sys/class/gpio/export'' (fmt_d 4) (snd (sys ?v ?a))))"
    by simp
  have op: "gpio_open gpio_init 4 ''input'' w =
     (fst (gpio_open gpio_init 4 ''input'' w), fst (snd (gpio_open gpio_init 4 ''input'' w)),
      snd (snd (gpio_open gpio_init 4 ''input'' w)))" for w
    by simp
  from gpio_open_export_ownership [OF rel acc_u ex_u op]
  have failed: "gpio_open gpio_init 4 ''input'' ?u =
     (-1, gpio_init,
      \<lparr>kern = kernel_of ret_only_pin7,
       trace = [SysAccess ''/sys/class/gpio/gpio4/value'',
                SysOpen ''/sys/class/gpio/export'' O_WRONLY],
       sent = []\<rparr>)"
    by (simp add: prod_eq_iff)
  show ?thesis
    using gpio_open_export_ownership [OF rel acc ex op]
      gpio_open_export_ownership [OF rel acc_v ex_v op] failed acc_u
    by (simp add: sys_world start_def gpio_path_def fmt_d_4 kernel_of_def ret_fresh_def
          ret_all_ok_def ret_only_pin7_def)
qed

subsection \<open>Interrupts\<close>

text \<open>
  Claim C6: \<open>set_interrupt(mode)\<close> moves the state to InputWithInterrupts if and only if
  the write to the edge control file succeeds; if that write fails, an error is returned
  and the state is what it was before the call.

  The write is \<^verbatim>\<open>sysfs_write_file\<close> on the edge file of the stored pin number, and it
  succeeds when its result \<open>n\<close> is not \<open>0\<close> (\<open>sysfs_write_file_success\<close>). In that case \<^verbatim>\<open>gpio_set_int\<close> returns \<open>1\<close> and only
  the state changes; otherwise it returns \<open>-1\<close> and the structure is unchanged. The world is
  in both cases the one the write left.
\<close>

theorem gpio_set_int_transition:
  assumes "gpio_set_int pin mode w = (r, pin', w')"
    and "sysfs_write_file (gpio_path (pin_number pin) ''edge'') mode w = (n, w'')"
  shows "w' = w'' \<and>
    (n \<noteq> 0 \<longrightarrow> r = 1 \<and> pin' = pin\<lparr>state := GPIO_INPUT_WITH_INTERRUPTS\<rparr>) \<and>
    (n = 0 \<longrightarrow> r = -1 \<and> pin' = pin)"
  using assms by (auto simp: gpio_set_int_def Let_def split: if_splits)

theorem gpio_set_int_transition_witness:
  "gpio_set_int \<lparr>state = GPIO_INPUT, fd = 3, pin_number = 4, already_exported = 1\<rparr> ''rising''
       (start (kernel_of ret_all_ok))
     = (1, \<lparr>state = GPIO_INPUT_WITH_INTERRUPTS, fd = 3, pin_number = 4, already_exported = 1\<rparr>,
        \<lparr>kern = kernel_of ret_all_ok,
         trace = [SysOpen ''/sys/class/gpio/gpio4/edge'' O_WRONLY, SysWrite 3 ''rising'', SysClose 3],
         sent = []\<rparr>) \<and>
   gpio_set_int \<lparr>state = GPIO_INPUT, fd = 3, pin_number = 4, already_exported = 1\<rparr> ''rising''
       (start (kernel_of ret_read_only))
     = (-1, \<lparr>state = GPIO_INPUT, fd = 3, pin_number = 4, already_exported = 1\<rparr>,
        \<lparr>kern = kernel_of ret_read_only,
         trace = [SysOpen ''/sys/class/gpio/gpio4/edge'' O_WRONLY], sent = []\<rparr>)"
proof -
  let ?pin = "\<lparr>state = GPIO_INPUT, fd = 3, pin_number = 4, already_exported = 1\<rparr>"
  have ok: "sysfs_write_file (gpio_path (pin_number ?pin) ''edge'') ''rising''
       (start (kernel_of ret_all_ok))
     = (6, \<lparr>kern = kernel_of ret_all_ok,
         trace = [SysOpen ''/sys/class/gpio/gpio4/edge'' O_WRONLY, SysWrite 3 ''rising'', SysClose 3],
         sent = []\<rparr>)"
    by (simp add: run_defs fmt_d_4)
  have bad: "sysfs_write_file (gpio_path (pin_number ?pin) ''edge'') ''rising''
       (start (kernel_of ret_read_only))
     = (0, \<lparr>kern = kernel_of ret_read_only,
         trace = [SysOpen ''/sys/class/gpio/gpio4/edge'' O_WRONLY], sent = []\<rparr>)"
    by (simp add: run_defs fmt_d_4)
  have res: "gpio_set_int ?pin ''rising'' w =
      (fst (gpio_set_int ?pin ''rising'' w), fst (snd (gpio_set_int ?pin ''rising'' w)),
       snd (snd (gpio_set_int ?pin ''rising'' w)))" for w
    by simp
  show ?thesis
    using gpio_set_int_transition [OF res ok] gpio_set_int_transition [OF res bad]
    by (simp add: prod_eq_iff)
qed

text \<open>
  Claim C9: \<open>set_interrupt\<close> tests no precondition on the state. In any state, Closed and
  Output included, it writes the mode to the edge file of the stored pin number, which is
  \<open>-1\<close> when the resource is Closed, and if that write succeeds the state becomes
  InputWithInterrupts.

  The return value and the world after \<^verbatim>\<open>gpio_set_int\<close> do not depend on the state the
  structure holds; its first call opens the edge file of the stored pin number, which for the
  initial structure is \<^verbatim>\<open>/sys/class/gpio/gpio-1/edge\<close>, and \<^verbatim>\<open>gpio_release\<close> stores \<open>-1\<close>
  again; and whenever the write succeeds the result is \<open>1\<close> with the state
  \<open>GPIO_INPUT_WITH_INTERRUPTS\<close>, the other fields unchanged.
\<close>

theorem gpio_set_int_any_state:
  "fst (gpio_set_int (pin\<lparr>state := s\<rparr>) mode w) = fst (gpio_set_int pin mode w) \<and>
   snd (snd (gpio_set_int (pin\<lparr>state := s\<rparr>) mode w)) = snd (snd (gpio_set_int pin mode w)) \<and>
   prefix (trace w @ [SysOpen (gpio_path (pin_number pin) ''edge'') O_WRONLY])
     (trace (snd (snd (gpio_set_int pin mode w)))) \<and>
   gpio_path (pin_number gpio_init) ''edge'' = ''/sys/class/gpio/gpio-1/edge'' \<and>
   (state pin \<noteq> GPIO_CLOSED \<longrightarrow> pin_number (fst (snd (gpio_release pin w))) = -1) \<and>
   (fst (sysfs_write_file (gpio_path (pin_number pin) ''edge'') mode w) \<noteq> 0 \<longrightarrow>
      fst (gpio_set_int pin mode w) = 1 \<and>
      fst (snd (gpio_set_int pin mode w)) = pin\<lparr>state := GPIO_INPUT_WITH_INTERRUPTS\<rparr>)"
proof -
  have "prefix (trace w @ [SysOpen (gpio_path (pin_number pin) ''edge'') O_WRONLY])
     (trace (snd (snd (gpio_set_int pin mode w))))"
    using sysfs_write_file_trace [of "gpio_path (pin_number pin) ''edge''" mode w]
    by (simp add: gpio_set_int_def Let_def split_def)
  moreover have "gpio_path (pin_number gpio_init) ''edge'' = ''/sys/class/gpio/gpio-1/edge''"
    by (simp add: gpio_path_def gpio_init_def fmt_d_minus_1)
  ultimately show ?thesis
    by (simp add: gpio_set_int_def gpio_release_def Let_def split_def)
qed

theorem gpio_set_int_any_state_witness:
  "gpio_set_int gpio_init ''rising'' (start (kernel_of ret_all_ok))
     = (1, \<lparr>state = GPIO_INPUT_WITH_INTERRUPTS, fd = -1, pin_number = -1, already_exported = 0\<rparr>,
        \<lparr>kern = kernel_of ret_all_ok,
         trace = [SysOpen ''/sys/class/gpio/gpio-1/edge'' O_WRONLY, SysWrite 3 ''rising'',
                  SysClose 3],
         sent = []\<rparr>) \<and>
   gpio_set_int \<lparr>state = GPIO_OUTPUT, fd = 3, pin_number = 4, already_exported = 1\<rparr> ''both''
       (start (kernel_of ret_all_ok))
     = (1, \<lparr>state = GPIO_INPUT_WITH_INTERRUPTS, fd = 3, pin_number = 4, already_exported = 1\<rparr>,
        \<lparr>kern = kernel_of ret_all_ok,
         trace = [SysOpen ''/sys/class/gpio/gpio4/edge'' O_WRONLY, SysWrite 3 ''both'',
                  SysClose 3],
         sent = []\<rparr>) \<and>
   pin_number (fst (snd (gpio_release
       \<lparr>state = GPIO_OUTPUT, fd = 3, pin_number = 4, already_exported = 1\<rparr>
       (start (kernel_of ret_all_ok))))) = -1"
proof -
  let ?w = "start (kernel_of ret_all_ok)"
  let ?p = "\<lparr>state = GPIO_OUTPUT, fd = 3, pin_number = 4, already_exported = 1\<rparr>"
  have a: "sysfs_write_file (gpio_path (pin_number gpio_init) ''edge'') ''rising'' ?w
     = (6, \<lparr>kern = kernel_of ret_all_ok,
         trace = [SysOpen ''/sys/class/gpio/gpio-1/edge'' O_WRONLY, SysWrite 3 ''rising'',
                  SysClose 3], sent = []\<rparr>)"
    by (simp add: run_defs fmt_d_minus_1)
  have b: "sysfs_write_file (gpio_path (pin_number ?p) ''edge'') ''both'' ?w
     = (4, \<lparr>kern = kernel_of ret_all_ok,
         trace = [SysOpen ''/sys/class/gpio/gpio4/edge'' O_WRONLY, SysWrite 3 ''both'',
                  SysClose 3], sent = []\<rparr>)"
    by (simp add: run_defs fmt_d_4)
  have w: "snd (snd (gpio_set_int pin mode w))
      = snd (sysfs_write_file (gpio_path (pin_number pin) ''edge'') mode w)" for pin mode w
    by (simp add: gpio_set_int_def Let_def split_def)
  have a0: "fst (sysfs_write_file (gpio_path (pin_number gpio_init) ''edge'') ''rising'' ?w) \<noteq> 0"
    by (simp add: a)
  have b0: "fst (sysfs_write_file (gpio_path (pin_number ?p) ''edge'') ''both'' ?w) \<noteq> 0"
    by (simp only: b) simp
  from a0 gpio_set_int_any_state [where pin = gpio_init and s = GPIO_CLOSED
      and mode = "''rising''" and w = ?w]
  have r1: "fst (gpio_set_int gpio_init ''rising'' ?w) = 1 \<and>
     fst (snd (gpio_set_int gpio_init ''rising'' ?w))
       = gpio_init\<lparr>state := GPIO_INPUT_WITH_INTERRUPTS\<rparr>"
    by blast
  from b0 gpio_set_int_any_state [where pin = ?p and s = GPIO_OUTPUT and mode = "''both''"
      and w = ?w]
  have r2: "fst (gpio_set_int ?p ''both'' ?w) = 1 \<and>
     fst (snd (gpio_set_int ?p ''both'' ?w)) = ?p\<lparr>state := GPIO_INPUT_WITH_INTERRUPTS\<rparr> \<and>
     pin_number (fst (snd (gpio_release ?p ?w))) = -1"
    by simp
  have w1: "snd (snd (gpio_set_int gpio_init ''rising'' ?w)) =
      \<lparr>kern = kernel_of ret_all_ok,
         trace = [SysOpen ''/sys/class/gpio/gpio-1/edge'' O_WRONLY, SysWrite 3 ''rising'',
                  SysClose 3], sent = []\<rparr>"
    by (simp only: w a snd_conv)
  have w2: "snd (snd (gpio_set_int ?p ''both'' ?w)) =
      \<lparr>kern = kernel_of ret_all_ok,
         trace = [SysOpen ''/sys/class/gpio/gpio4/edge'' O_WRONLY, SysWrite 3 ''both'',
                  SysClose 3], sent = []\<rparr>"
    by (simp only: w b snd_conv)
  show ?thesis
    using r1 r2 w1 w2 by (simp add: prod_eq_iff gpio_init_def)
qed

subsection \<open>The event loop\<close>

lemma prefix_gpio_read:
  "prefix xs (trace W) \<Longrightarrow> prefix xs (trace (world_of snd (gpio_read pin W)))"
  by (simp add: gpio_read_def world_of_def sys_data_def Let_def split: option.split list.split)

lemma prefix_gpio_process:
  "prefix xs (trace W) \<Longrightarrow> prefix xs (trace (world_of id (gpio_process pin W)))"
  using prefix_gpio_read [of xs W pin]
  by (auto simp add: gpio_process_def world_of_def erlcmd_send_def Let_def split: sum.splits)

lemma prefix_handle_release:
  "prefix (trace v) (trace (world_of snd
      (gpio_handle_request (ETuple [EAtom ''cast'', EAtom ''release'']) p v)))"
  by (simp add: gpio_handle_request_def gpio_handle_cast_def erl_element_def ERL_ATOM_PTR_def
        split_def world_of_def prefix_release)

lemma main_wait_call: "SysPoll (take (main_nfds pin) (main_fdset pin)) (-1) = main_wait pin"
  by (simp add: main_nfds_def main_fdset_def main_wait_def)

lemma main_step_first_call:
  assumes mono: "\<And>p v. prefix (trace v) (trace (world_of snd (P p v)))"
  shows "prefix (trace w @ [main_wait pin]) (trace (world_of snd (main_step P pin w)))"
proof -
  define w1 where "w1 = w\<lparr>trace := trace w @ [main_wait pin]\<rparr>"
  have p1: "prefix (trace w @ [main_wait pin]) (trace w1)"
    by (simp add: w1_def)
  have "prefix (trace w1) (trace (world_of snd (P pin w1)))"
    by (rule mono)
  with p1 have pP: "prefix (trace w @ [main_wait pin]) (trace (world_of snd (P pin w1)))"
    by (rule prefix_order.trans)
  have pG: "prefix (trace w @ [main_wait pin]) (trace v)"
    if "prefix (trace w @ [main_wait pin]) (trace W)"
      and "gpio_process p W = Inl (f, v) \<or> gpio_process p W = Inr v" for p W f v
    using prefix_gpio_process [OF that(1), of p] that(2)
    by (auto simp add: world_of_def)
  show ?thesis
    unfolding main_step_def Let_def main_wait_call sys_def w1_def [symmetric]
    using p1 pP
    by (auto simp add: world_of_def split: sum.splits intro: pG)
qed

lemma main_step_eintr:
  assumes "k_ret (kern w) (trace w) (main_wait pin) < 0"
    and "k_errno (kern w) (trace w) (main_wait pin) = EINTR"
  shows "main_step P pin w = Inr (pin, w\<lparr>trace := trace w @ [main_wait pin]\<rparr>)"
  using assms unfolding main_step_def Let_def main_wait_call sys_def by simp

lemma prefix_main_step:
  assumes mono: "\<And>p v. prefix (trace v) (trace (world_of snd (P p v)))"
    and pre: "prefix xs (trace w)"
  shows "prefix xs (trace (world_of snd (main_step P pin w)))"
proof -
  have "prefix xs (trace w @ [main_wait pin])"
    using pre by (simp add: prefix_prefix)
  moreover have "prefix (trace w @ [main_wait pin]) (trace (world_of snd (main_step P pin w)))"
    by (rule main_step_first_call) (rule mono)
  ultimately show ?thesis
    by (rule prefix_order.trans)
qed

lemma prefix_main_loop:
  assumes mono: "\<And>p v. prefix (trace v) (trace (world_of snd (P p v)))"
  shows "prefix xs (trace w) \<Longrightarrow> prefix xs (trace (world_of snd (main_loop n P pin w)))"
proof (induction n arbitrary: pin w)
  case 0
  then show ?case by (simp add: world_of_def)
next
  case (Suc n)
  have step: "prefix xs (trace (world_of snd (main_step P pin w)))"
    using mono Suc.prems by (rule prefix_main_step)
  show ?case
  proof (cases "main_step P pin w")
    case (Inl f)
    with step show ?thesis
      by simp
  next
    case (Inr r)
    obtain pin' w' where r: "r = (pin', w')"
      by (cases r)
    from step Inr r have "prefix xs (trace w')"
      by (simp add: world_of_def)
    then have "prefix xs (trace (world_of snd (main_loop n P pin' w')))"
      by (rule Suc.IH)
    with Inr r show ?thesis by simp
  qed
qed

text \<open>
  Claim C8: on every iteration of the event loop the wait covers the input of the command
  channel always and the interrupt descriptor if and only if the state is
  InputWithInterrupts; a wait interrupted by a signal (\<^verbatim>\<open>EINTR\<close>) is retried without any
  other action.

  \<^verbatim>\<open>erlcmd_process\<close> is the parameter \<open>P\<close>, of which only this is assumed: it adds to the
  trace and removes nothing. Then the first call of an iteration is \<open>main_wait pin\<close>, however
  the iteration ends. When that call returns a negative value with \<^verbatim>\<open>errno = EINTR\<close>, the
  iteration ends with the structure unchanged, nothing sent and no other call made; the
  loop goes on with the next iteration, and the call that follows the interrupted wait is
  the same wait again, whatever the loop does after it.
\<close>

theorem main_step_wait:
  assumes mono: "\<And>p v. prefix (trace v) (trace (world_of snd (P p v)))"
  shows "prefix (trace w @ [main_wait pin]) (trace (world_of snd (main_step P pin w))) \<and>
    (k_ret (kern w) (trace w) (main_wait pin) < 0 \<and>
     k_errno (kern w) (trace w) (main_wait pin) = EINTR \<longrightarrow>
       main_step P pin w = Inr (pin, w\<lparr>trace := trace w @ [main_wait pin]\<rparr>) \<and>
       main_loop (Suc n) P pin w = main_loop n P pin (w\<lparr>trace := trace w @ [main_wait pin]\<rparr>) \<and>
       prefix (trace w @ [main_wait pin, main_wait pin])
         (trace (world_of snd (main_loop (Suc (Suc n)) P pin w))))"
proof -
  define w1 where "w1 = w\<lparr>trace := trace w @ [main_wait pin]\<rparr>"
  have again: "prefix (trace w @ [main_wait pin, main_wait pin])
         (trace (world_of snd (main_loop (Suc (Suc n)) P pin w)))"
    if eintr: "main_step P pin w = Inr (pin, w1)"
  proof -
    have loop: "main_loop (Suc (Suc n)) P pin w = main_loop (Suc n) P pin w1"
      using eintr by simp
    have "prefix (trace w1 @ [main_wait pin]) (trace (world_of snd (main_step P pin w1)))"
      by (rule main_step_first_call) (rule mono)
    then have second: "prefix (trace w @ [main_wait pin, main_wait pin])
        (trace (world_of snd (main_step P pin w1)))"
      by (simp add: w1_def)
    show ?thesis
    proof (cases "main_step P pin w1")
      case (Inl f)
      with second loop show ?thesis by simp
    next
      case (Inr r)
      obtain pin' w' where r: "r = (pin', w')"
        by (cases r)
      from second Inr r have "prefix (trace w @ [main_wait pin, main_wait pin]) (trace w')"
        by (simp add: world_of_def)
      with mono have "prefix (trace w @ [main_wait pin, main_wait pin])
          (trace (world_of snd (main_loop n P pin' w')))"
        by (rule prefix_main_loop)
      with Inr r loop show ?thesis by simp
    qed
  qed
  have first: "prefix (trace w @ [main_wait pin]) (trace (world_of snd (main_step P pin w)))"
    by (rule main_step_first_call) (rule mono)
  show ?thesis
    using first main_step_eintr [where w = w and pin = pin and P = P] again
    by (simp add: w1_def)
qed

theorem main_step_wait_witness:
  "main_step (gpio_handle_request (ETuple [EAtom ''cast'', EAtom ''release'']))
       \<lparr>state = GPIO_INPUT_WITH_INTERRUPTS, fd = 5, pin_number = 4, already_exported = 1\<rparr>
       (start (kernel_polling 1 0 [POLLIN, 0]))
     = Inr (\<lparr>state = GPIO_CLOSED, fd = -1, pin_number = -1, already_exported = 1\<rparr>,
            \<lparr>kern = kernel_polling 1 0 [POLLIN, 0],
             trace = [SysPoll [(0, 1), (5, 2)] (-1), SysClose 5], sent = []\<rparr>) \<and>
   main_step (gpio_handle_request (ETuple [EAtom ''cast'', EAtom ''release'']))
       \<lparr>state = GPIO_INPUT, fd = 5, pin_number = 4, already_exported = 1\<rparr>
       (start (kernel_polling (-1) EINTR [POLLIN, POLLPRI]))
     = Inr (\<lparr>state = GPIO_INPUT, fd = 5, pin_number = 4, already_exported = 1\<rparr>,
            \<lparr>kern = kernel_polling (-1) EINTR [POLLIN, POLLPRI],
             trace = [SysPoll [(0, 1)] (-1)], sent = []\<rparr>) \<and>
   main_loop (Suc (Suc 0)) (gpio_handle_request (ETuple [EAtom ''cast'', EAtom ''release'']))
       \<lparr>state = GPIO_INPUT, fd = 5, pin_number = 4, already_exported = 1\<rparr>
       (start (kernel_polling (-1) EINTR [POLLIN, POLLPRI]))
     = Inr (\<lparr>state = GPIO_INPUT, fd = 5, pin_number = 4, already_exported = 1\<rparr>,
            \<lparr>kern = kernel_polling (-1) EINTR [POLLIN, POLLPRI],
             trace = [SysPoll [(0, 1)] (-1), SysPoll [(0, 1)] (-1)], sent = []\<rparr>) \<and>
   prefix [SysPoll [(0, 1)] (-1), SysPoll [(0, 1)] (-1)]
     (trace (world_of snd
        (main_loop (Suc (Suc (Suc 0)))
           (gpio_handle_request (ETuple [EAtom ''cast'', EAtom ''release'']))
           \<lparr>state = GPIO_INPUT, fd = 5, pin_number = 4, already_exported = 1\<rparr>
           (start (kernel_polling (-1) EINTR [POLLIN, POLLPRI])))))"
proof -
  let ?P = "gpio_handle_request (ETuple [EAtom ''cast'', EAtom ''release''])"
  let ?p = "\<lparr>state = GPIO_INPUT_WITH_INTERRUPTS, fd = 5, pin_number = 4, already_exported = 1\<rparr>"
  let ?q = "\<lparr>state = GPIO_INPUT, fd = 5, pin_number = 4, already_exported = 1\<rparr>"
  let ?k = "kernel_polling (-1) EINTR [POLLIN, POLLPRI]"
  let ?w0 = "start ?k"
  let ?w1 = "?w0\<lparr>trace := trace ?w0 @ [main_wait ?q]\<rparr>"
  let ?w2 = "?w1\<lparr>trace := trace ?w1 @ [main_wait ?q]\<rparr>"
  have run: "main_step ?P ?p (start (kernel_polling 1 0 [POLLIN, 0]))
     = Inr (\<lparr>state = GPIO_CLOSED, fd = -1, pin_number = -1, already_exported = 1\<rparr>,
            \<lparr>kern = kernel_polling 1 0 [POLLIN, 0],
             trace = [SysPoll [(0, 1), (5, 2)] (-1), SysClose 5], sent = []\<rparr>)"
    by (simp add: main_step_def main_nfds_def main_fdset_def Let_def sys_def start_def
          kernel_polling_def POLLIN_def POLLPRI_def POLLHUP_def STDIN_FILENO_def
          gpio_handle_request_def gpio_handle_cast_def erl_element_def ERL_ATOM_PTR_def
          gpio_release_def)
  have pre: "k_ret (kern w) (trace w) (main_wait ?q) < 0 \<and>
       k_errno (kern w) (trace w) (main_wait ?q) = EINTR" if "kern w = ?k" for w
    using that by (simp add: kernel_polling_def main_wait_def)
  have pre0: "k_ret (kern ?w0) (trace ?w0) (main_wait ?q) < 0 \<and>
       k_errno (kern ?w0) (trace ?w0) (main_wait ?q) = EINTR"
    by (rule pre) (simp add: start_def)
  have pre1: "k_ret (kern ?w1) (trace ?w1) (main_wait ?q) < 0 \<and>
       k_errno (kern ?w1) (trace ?w1) (main_wait ?q) = EINTR"
    by (rule pre) (simp add: start_def)
  from main_step_wait [where P = ?P and w = "start (kernel_polling 1 0 [POLLIN, 0])" and pin = ?p
      and n = 0, OF prefix_handle_release]
  have "prefix [main_wait ?p] (trace (world_of snd (main_step ?P ?p (start (kernel_polling 1 0 [POLLIN, 0])))))"
    by (simp add: start_def)
  moreover from main_step_wait [where P = ?P and w = ?w0 and pin = ?q and n = "Suc 0",
      OF prefix_handle_release] pre0
  have s0: "main_step ?P ?q ?w0 = Inr (?q, ?w1)"
    and l0: "main_loop (Suc (Suc 0)) ?P ?q ?w0 = main_loop (Suc 0) ?P ?q ?w1"
    and again: "prefix (trace ?w0 @ [main_wait ?q, main_wait ?q])
         (trace (world_of snd (main_loop (Suc (Suc (Suc 0))) ?P ?q ?w0)))"
    by blast+
  moreover from main_step_wait [where P = ?P and w = ?w1 and pin = ?q and n = 0,
      OF prefix_handle_release] pre1
  have l1: "main_loop (Suc 0) ?P ?q ?w1 = main_loop 0 ?P ?q ?w2"
    by blast
  ultimately show ?thesis
    using run by (simp add: start_def main_wait_def STDIN_FILENO_def POLLIN_def POLLPRI_def)
qed

section \<open>The I2C dispatcher\<close>




text \<open>
  Claim C10: the guard of \<open>i2c_read\<close> is a signed comparison that rejects a request if and
  only if the decoded length is strictly greater than the maximum block size; a zero or
  negative length passes it and reaches the allocation of the buffer and the read, instead
  of being rejected.

  The request ends in \<^verbatim>\<open>errx\<close> exactly when the length, as a signed number, exceeds the
  maximum. A length of zero or below is not rejected: it goes past the guard to the
  declaration of the buffer, \<^verbatim>\<open>char data[len]\<close>, the first statement of the path that
  allocates and reads, with no call made before. With such a size C defines nothing from
  the declaration on, so what the program does next, the read included, is not stated.
\<close>

theorem i2c_read_guard_signed:
  "((\<exists>m v. i2c_handle_request (ETuple [EAtom ''i2c_read'', EInt len]) i2c w = Inl (Exit m, v))
      \<longleftrightarrow> I2C_SMBUS_BLOCK_MAX < len) \<and>
   (len \<le> 0 \<longrightarrow>
      i2c_handle_request (ETuple [EAtom ''i2c_read'', EInt len]) i2c w
        = Inl (Undefined ''char data[len]: size is not positive'', w))"
  by (auto simp add: i2c_handle_request_def i2c_read_def erl_element_def ERL_ATOM_PTR_def
        ERL_INT_VALUE_def sys_data_def Let_def I2C_SMBUS_BLOCK_MAX_def split: option.splits)

theorem i2c_read_guard_signed_witness:
  "\<not> (\<exists>m v. i2c_handle_request (ETuple [EAtom ''i2c_read'', EInt (-1)]) \<lparr>i2c_fd = 5, i2c_addr = 64\<rparr>
                (start (kernel_reading None)) = Inl (Exit m, v)) \<and>
   i2c_handle_request (ETuple [EAtom ''i2c_read'', EInt (-1)]) \<lparr>i2c_fd = 5, i2c_addr = 64\<rparr>
       (start (kernel_reading None))
     = Inl (Undefined ''char data[len]: size is not positive'', start (kernel_reading None)) \<and>
   i2c_handle_request (ETuple [EAtom ''i2c_read'', EInt 0]) \<lparr>i2c_fd = 5, i2c_addr = 64\<rparr>
       (start (kernel_reading None))
     = Inl (Undefined ''char data[len]: size is not positive'', start (kernel_reading None)) \<and>
   \<not> (\<exists>m v. i2c_handle_request (ETuple [EAtom ''i2c_read'', EInt 32]) \<lparr>i2c_fd = 5, i2c_addr = 64\<rparr>
                (start (kernel_reading None)) = Inl (Exit m, v)) \<and>
   (\<exists>m v. i2c_handle_request (ETuple [EAtom ''i2c_read'', EInt 33]) \<lparr>i2c_fd = 5, i2c_addr = 64\<rparr>
                (start (kernel_reading None)) = Inl (Exit m, v))"
  using i2c_read_guard_signed [of "-1" "\<lparr>i2c_fd = 5, i2c_addr = 64\<rparr>" "start (kernel_reading None)"]
    i2c_read_guard_signed [of 0 "\<lparr>i2c_fd = 5, i2c_addr = 64\<rparr>" "start (kernel_reading None)"]
    i2c_read_guard_signed [of 32 "\<lparr>i2c_fd = 5, i2c_addr = 64\<rparr>" "start (kernel_reading None)"]
    i2c_read_guard_signed [of 33 "\<lparr>i2c_fd = 5, i2c_addr = 64\<rparr>" "start (kernel_reading None)"]
  by (simp add: I2C_SMBUS_BLOCK_MAX_def)

end
